theory Spec2Isabelle
  imports Complex_Main
begin

section \<open>Values, dates and exceptions\<close>

text \<open>
  A date or midnight timestamp is its day number; \<open>pd.Timedelta(weeks=k)\<close> is \<open>7 * k\<close>
  days.  A cell of a numeric data-frame column is a number or the missing value NaN.
  Numbers are exact rationals: rounding of binary floating point is outside this model.
\<close>

type_synonym date = int

datatype number = NaN | Val rat

text \<open>The exceptions the modelled code can raise, with their Python class names.\<close>

datatype py_error = IndexError | ValueError | NameError | StreamlitAPIException

fun error_name :: "py_error \<Rightarrow> string" where
  "error_name IndexError = ''IndexError''"
| "error_name ValueError = ''ValueError''"
| "error_name NameError = ''NameError''"
| "error_name StreamlitAPIException = ''StreamlitAPIException''"

fun number_sub :: "number \<Rightarrow> number \<Rightarrow> number" where
  "number_sub (Val a) (Val b) = Val (a - b)"
| "number_sub _ _ = NaN"

fun number_add :: "number \<Rightarrow> number \<Rightarrow> number" where
  "number_add (Val a) (Val b) = Val (a + b)"
| "number_add _ _ = NaN"

text \<open>
  Python's \<open>max(a, b)\<close> keeps \<open>a\<close> unless \<open>b > a\<close>, and every comparison with NaN is
  false.  So \<open>max(0, x)\<close> is 0 for a NaN \<open>x\<close>, while \<open>max(x, 0)\<close> is NaN.
\<close>

fun max_0_x :: "number \<Rightarrow> number" where
  "max_0_x NaN = Val 0"
| "max_0_x (Val x) = (if x > 0 then Val x else Val 0)"

fun max_x_0 :: "number \<Rightarrow> number" where
  "max_x_0 NaN = NaN"
| "max_x_0 (Val x) = (if 0 > x then Val 0 else Val x)"

text \<open>\<open>int(x)\<close> truncates toward zero and raises ValueError on NaN.\<close>

fun py_int :: "number \<Rightarrow> py_error + int" where
  "py_int NaN = Inl ValueError"
| "py_int (Val x) = Inr (if 0 \<le> x then \<lfloor>x\<rfloor> else \<lceil>x\<rceil>)"

section \<open>Series.dropna and Series.quantile\<close>

fun dropna :: "number list \<Rightarrow> rat list" where
  "dropna [] = []"
| "dropna (NaN # xs) = dropna xs"
| "dropna (Val x # xs) = x # dropna xs"

text \<open>
  \<open>Series.quantile(q)\<close> with the default linear interpolation: on the sorted values
  \<open>s\<close> of length \<open>n\<close> the position is \<open>(n - 1) * q\<close>, and the result interpolates
  between the two neighbours of that position.  An empty series gives NaN.
\<close>

definition quantile :: "rat \<Rightarrow> rat list \<Rightarrow> number" where
  "quantile q xs =
     (if xs = [] then NaN
      else let s = sort xs;
               pos = of_nat (length xs - 1) * q;
               lo = nat \<lfloor>pos\<rfloor>;
               g = pos - of_nat lo
           in Val (if g = 0 then s ! lo else s ! lo + (s ! (lo + 1) - s ! lo) * g))"

section \<open>LCH_WLSimulator_Main.py\<close>

text \<open>
  A row of the service's data frame, with the columns \<open>simulate_future\<close> reads
  (\<open>ClockStarts_52+_weeks\<close> and \<open>ClockStops_52+_weeks\<close> in the source).
\<close>

record row =
  WeekCommencing :: date
  ClockStarts_52_weeks :: number
  ClockStops_52_weeks :: number
  Over52Weeks :: number

text \<open>An initiative dictionary of the sidebar; the key \<open>end\<close> may be absent.\<close>

record initiative =
  name :: string
  start :: date
  change :: int
  end_date :: "date option"

text \<open>
  The module globals \<open>simulate_future\<close> reads.  \<open>reset_date_k\<close> and \<open>reset_value_k\<close>
  are both None or both set, so each reset is one optional pair.
\<close>

record globals =
  today :: date
  reset_1 :: "(date \<times> int) option"
  reset_2 :: "(date \<times> int) option"

text \<open>The selection \<open>df[df["WeekCommencing"] < d]\<close>, in the frame's row order.\<close>

definition before :: "date \<Rightarrow> row list \<Rightarrow> row list" where
  "before d df = filter (\<lambda>r. WeekCommencing r < d) df"

text \<open>
  The sidebar's reset section (lines 92-113).  Each reset has a checkbox, a date widget and
  a number widget; the widgets' values are the arguments, the number being one the widget
  lets through (1 to 3000).  \<open>last_actual_row\<close> is bound only under the first checkbox,
  and its waiting-list value is the default of both number widgets, which
  \<open>st.number_input\<close> refuses outside its bounds.
\<close>

definition waiting_list_resets ::
  "date \<Rightarrow> row list \<Rightarrow> bool \<times> date \<times> int \<Rightarrow> bool \<times> date \<times> int \<Rightarrow> py_error + globals" where
  "waiting_list_resets today_date service_df widget_1 widget_2 =
     (let enable_reset_1 = fst widget_1;
          enable_reset_2 = fst widget_2;
          historic = before today_date service_df;
          step_1 =
            (if enable_reset_1 then
               (if historic = [] then Inl IndexError
                else (case py_int (Over52Weeks (last historic)) of
                        Inl e \<Rightarrow> Inl e
                      | Inr default_reset_value_1 \<Rightarrow>
                          if default_reset_value_1 < 1 \<or> 3000 < default_reset_value_1
                          then Inl StreamlitAPIException
                          else Inr (Some (snd widget_1))))
             else Inr None)
      in (case step_1 of
            Inl e \<Rightarrow> Inl e
          | Inr r1 \<Rightarrow>
              (if enable_reset_2 then
                 (if \<not> enable_reset_1 then Inl NameError
                  else Inr \<lparr>today = today_date, reset_1 = r1, reset_2 = Some (snd widget_2)\<rparr>)
               else Inr \<lparr>today = today_date, reset_1 = r1, reset_2 = None\<rparr>)))"

text \<open>Lines 128-130: the 65th percentile of a column over the rows before \<open>next_week\<close>.\<close>

definition clock_start_65 :: "row list \<Rightarrow> date \<Rightarrow> py_error + int" where
  "clock_start_65 df next_week =
     py_int (quantile (65 / 100)
       (dropna (map ClockStarts_52_weeks (before next_week df))))"

definition clock_stop_65 :: "row list \<Rightarrow> date \<Rightarrow> py_error + int" where
  "clock_stop_65 df next_week =
     py_int (quantile (65 / 100)
       (dropna (map ClockStops_52_weeks (before next_week df))))"

text \<open>Lines 132-135: the loop over the initiatives, adding the change of each active one.\<close>

fun apply_initiatives :: "int \<Rightarrow> date \<Rightarrow> initiative list \<Rightarrow> int" where
  "apply_initiatives adjusted_clock_stop next_week [] = adjusted_clock_stop"
| "apply_initiatives adjusted_clock_stop next_week (item # items) =
     apply_initiatives
       (if start item \<le> next_week \<and>
           (case end_date item of None \<Rightarrow> True | Some e \<Rightarrow> next_week \<le> e)
        then adjusted_clock_stop + change item else adjusted_clock_stop)
       next_week items"

text \<open>Lines 132-138: the capacity of week \<open>i\<close>, overridden at \<open>i = 0\<close>.\<close>

definition adjusted_clock_stop :: "row \<Rightarrow> initiative list \<Rightarrow> nat \<Rightarrow> date \<Rightarrow> int \<Rightarrow> number" where
  "adjusted_clock_stop last_actual_row initiatives i next_week stop_65 =
     (let adjusted = apply_initiatives stop_65 next_week initiatives
      in if i = 0 then ClockStops_52_weeks last_actual_row else Val (of_int adjusted))"

text \<open>Lines 140-144: the second reset is tested after the first and overwrites it.\<close>

definition apply_resets :: "globals \<Rightarrow> date \<Rightarrow> number \<Rightarrow> number" where
  "apply_resets g next_week wl =
     (let wl1 = (case reset_1 g of
                   Some (reset_date_1, reset_value_1) \<Rightarrow>
                     if next_week = reset_date_1 then Val (of_int reset_value_1) else wl
                 | None \<Rightarrow> wl)
      in case reset_2 g of
           Some (reset_date_2, reset_value_2) \<Rightarrow>
             if next_week = reset_date_2 then Val (of_int reset_value_2) else wl1
         | None \<Rightarrow> wl1)"

definition next_week_of :: "row \<Rightarrow> nat \<Rightarrow> date" where
  "next_week_of last_actual_row i = WeekCommencing last_actual_row + 7 * (int i + 1)"

text \<open>One pass of the loop body (lines 126-158): the value appended for week \<open>i\<close>.\<close>

definition week_step ::
  "globals \<Rightarrow> row list \<Rightarrow> nat \<Rightarrow> initiative list \<Rightarrow> row \<Rightarrow> nat \<Rightarrow> number \<Rightarrow> py_error + number" where
  "week_step g df weeks_ahead initiatives last_actual_row i wl =
     (let next_week = next_week_of last_actual_row i
      in case clock_start_65 df next_week of
           Inl e \<Rightarrow> Inl e
         | Inr start_65 \<Rightarrow>
             (case clock_stop_65 df next_week of
                Inl e \<Rightarrow> Inl e
              | Inr stop_65 \<Rightarrow>
                  (let capacity = adjusted_clock_stop last_actual_row initiatives i next_week stop_65;
                       wl1 = apply_resets g next_week wl;
                       wl2 = max_0_x (number_sub wl1 capacity)
                   in Inr (if int i < int weeks_ahead - 1
                           then number_add wl2 (Val (of_int start_65)) else wl2))))"

text \<open>The loop \<open>for i in range(weeks_ahead)\<close>, with \<open>k\<close> passes left to run from \<open>i\<close>.\<close>

fun future_loop ::
  "globals \<Rightarrow> row list \<Rightarrow> nat \<Rightarrow> initiative list \<Rightarrow> row \<Rightarrow> nat \<Rightarrow> nat \<Rightarrow> number
     \<Rightarrow> py_error + (date \<times> number) list" where
  "future_loop g df weeks_ahead initiatives last_actual_row 0 i wl = Inr []"
| "future_loop g df weeks_ahead initiatives last_actual_row (Suc k) i wl =
     (case week_step g df weeks_ahead initiatives last_actual_row i wl of
        Inl e \<Rightarrow> Inl e
      | Inr wl_next \<Rightarrow>
          (case future_loop g df weeks_ahead initiatives last_actual_row k (Suc i) wl_next of
             Inl e \<Rightarrow> Inl e
           | Inr future_data \<Rightarrow> Inr ((next_week_of last_actual_row i, wl_next) # future_data)))"

text \<open>
  \<open>simulate_future(df, weeks_ahead, initiatives)\<close>: the rows of the returned frame as
  pairs of \<open>WeekCommencing\<close> and \<open>Simulated_WaitingList\<close>.
\<close>

definition simulate_future ::
  "globals \<Rightarrow> row list \<Rightarrow> nat \<Rightarrow> initiative list \<Rightarrow> py_error + (date \<times> number) list" where
  "simulate_future g df weeks_ahead initiatives =
     (let historic = before (today g) df
      in if historic = [] then Inl IndexError
         else let last_actual_row = last historic
              in future_loop g df weeks_ahead initiatives last_actual_row weeks_ahead 0
                   (Over52Weeks last_actual_row))"

text \<open>
  \<open>get_active_initiatives(week)\<close> (lines 276-282), up to the formatting of the labels:
  the initiatives named in the export for that week, in order.
\<close>

fun get_active_initiatives :: "initiative list \<Rightarrow> date \<Rightarrow> initiative list" where
  "get_active_initiatives [] week = []"
| "get_active_initiatives (i # rest) week =
     (if start i \<le> week \<and> (case end_date i of None \<Rightarrow> True | Some e \<Rightarrow> week \<le> e)
      then i # get_active_initiatives rest week
      else get_active_initiatives rest week)"

section \<open>The plain recurrence of the other three variants\<close>

text \<open>
  The loop shared by \<open>comm_paeds_streamlit_final.py\<close> (lines 44-55),
  \<open>comm_paeds_streamlit_branch_branch.py\<close> (lines 94-105) and
  \<open>LCH_WL_Simulator_Branch6.py\<close> (lines 108-115), over the pairs of demand and capacity
  of the rows; the result is \<open>waiting_list[1:]\<close>.
\<close>

fun waiting_list_loop :: "number \<Rightarrow> (number \<times> number) list \<Rightarrow> number list" where
  "waiting_list_loop wl [] = []"
| "waiting_list_loop wl ((demand, capacity) # rest) =
     (let net_change = number_sub demand capacity;
          new_waiting_list = max_x_0 (number_add wl net_change)
      in new_waiting_list # waiting_list_loop new_waiting_list rest)"

record day_row =
  Demand :: number
  Capacity :: number

definition simulate_final :: "int \<Rightarrow> int \<Rightarrow> int \<Rightarrow> day_row list \<Rightarrow> number list" where
  "simulate_final initial_waiting_list demand_adjustment capacity_adjustment df =
     waiting_list_loop (Val (of_int initial_waiting_list))
       (map (\<lambda>r. (number_add (Demand r) (Val (of_int demand_adjustment)),
                  number_add (Capacity r) (Val (of_int capacity_adjustment)))) df)"

record week_row =
  Week :: date
  Starts :: number
  Stops :: number

text \<open>The adjustment column: every event adds its boost to the rows from its date on.\<close>

fun capacity_adjustment_column :: "(date \<times> int) list \<Rightarrow> int \<Rightarrow> date \<Rightarrow> int" where
  "capacity_adjustment_column [] acc week = acc"
| "capacity_adjustment_column ((event_date, capacity_boost) # events) acc week =
     capacity_adjustment_column events
       (if week \<ge> event_date then acc + capacity_boost else acc) week"

definition simulate_branch_branch ::
  "int \<Rightarrow> int \<Rightarrow> int \<Rightarrow> (date \<times> int) list \<Rightarrow> week_row list \<Rightarrow> number list" where
  "simulate_branch_branch initial_waiting_list demand_adjustment capacity_adjustment locum_events df =
     waiting_list_loop (Val (of_int initial_waiting_list))
       (map (\<lambda>r. (number_add (Starts r) (Val (of_int demand_adjustment)),
                  number_add (number_add (Stops r) (Val (of_int capacity_adjustment)))
                    (Val (of_int (capacity_adjustment_column locum_events 0 (Week r)))))) df)"

definition simulate_branch6 :: "int \<Rightarrow> (date \<times> int) list \<Rightarrow> week_row list \<Rightarrow> number list" where
  "simulate_branch6 initial_waiting_list initiative_events df =
     waiting_list_loop (Val (of_int initial_waiting_list))
       (map (\<lambda>r. (Starts r,
                  number_add (Stops r)
                    (Val (of_int (capacity_adjustment_column initiative_events 0 (Week r)))))) df)"

section \<open>Names used in the statements\<close>

text \<open>
  The last actual row of a run, and the running value \<open>wl\<close> on entry to pass \<open>i\<close> of
  the loop: the last actual waiting-list value at first, the value appended by the
  previous pass after that.
\<close>

definition last_actual :: "globals \<Rightarrow> row list \<Rightarrow> row" where
  "last_actual g df = last (before (today g) df)"

definition wl_before :: "globals \<Rightarrow> row list \<Rightarrow> (date \<times> number) list \<Rightarrow> nat \<Rightarrow> number" where
  "wl_before g df traj i =
     (if i = 0 then Over52Weeks (last_actual g df) else snd (traj ! (i - 1)))"

text \<open>The dates of the resets that are switched on.\<close>

definition reset_dates :: "globals \<Rightarrow> date list" where
  "reset_dates g =
     (case reset_1 g of None \<Rightarrow> [] | Some (d, v) \<Rightarrow> [d]) @
     (case reset_2 g of None \<Rightarrow> [] | Some (d, v) \<Rightarrow> [d])"



text \<open>
  The capacity delta of a period as the specification words it (section 4.3): the sum of
  the changes of the events with \<open>start \<le> period\<close> and \<open>end\<close> absent or
  \<open>period \<le> end\<close>.  It is compared below with the loop of lines 132-135.
\<close>

definition spec_capacity_delta :: "initiative list \<Rightarrow> date \<Rightarrow> int" where
  "spec_capacity_delta events period =
     sum_list (map change
       (filter (\<lambda>e. start e \<le> period \<and> (case end_date e of None \<Rightarrow> True | Some e' \<Rightarrow> period \<le> e'))
          events))"

section \<open>Example frames\<close>

text \<open>
  Three weekly rows of history with constant demand \<open>d\<close> and capacity \<open>c\<close>; the last
  actual waiting-list value is 100.  With \<open>today = 15\<close> the forecast weeks start on days
  21, 28, 35.
\<close>

definition flat_df :: "rat \<Rightarrow> rat \<Rightarrow> row list" where
  "flat_df d c =
     [\<lparr>WeekCommencing = 0, ClockStarts_52_weeks = Val d, ClockStops_52_weeks = Val c,
        Over52Weeks = Val 120\<rparr>,
      \<lparr>WeekCommencing = 7, ClockStarts_52_weeks = Val d, ClockStops_52_weeks = Val c,
        Over52Weeks = Val 110\<rparr>,
      \<lparr>WeekCommencing = 14, ClockStarts_52_weeks = Val d, ClockStops_52_weeks = Val c,
        Over52Weeks = Val 100\<rparr>]"

definition no_resets :: globals where
  "no_resets = \<lparr>today = 15, reset_1 = None, reset_2 = None\<rparr>"



definition flat_weeks :: "week_row list" where
  "flat_weeks =
     [\<lparr>Week = 0, Starts = Val 10, Stops = Val 15\<rparr>,
      \<lparr>Week = 7, Starts = Val 10, Stops = Val 15\<rparr>,
      \<lparr>Week = 14, Starts = Val 10, Stops = Val 15\<rparr>]"


text \<open>An initiative of one single week \<open>P\<close>, adding 5.\<close>

definition extra_clinic :: "date \<Rightarrow> initiative" where
  "extra_clinic P = \<lparr>name = ''Extra Clinic'', start = P, change = 5, end_date = Some P\<rparr>"

text \<open>A history whose last actual capacity, 40, is not its 65th percentile, 22.\<close>

definition seam_df :: "row list" where
  "seam_df =
     [\<lparr>WeekCommencing = 0, ClockStarts_52_weeks = Val 10, ClockStops_52_weeks = Val 15,
        Over52Weeks = Val 120\<rparr>,
      \<lparr>WeekCommencing = 7, ClockStarts_52_weeks = Val 10, ClockStops_52_weeks = Val 15,
        Over52Weeks = Val 110\<rparr>,
      \<lparr>WeekCommencing = 14, ClockStarts_52_weeks = Val 10, ClockStops_52_weeks = Val 40,
        Over52Weeks = Val 100\<rparr>]"

text \<open>Both resets switched on with the same date, day 21.\<close>

definition same_date_resets :: globals where
  "same_date_resets = \<lparr>today = 15, reset_1 = Some (21, 50), reset_2 = Some (21, 70)\<rparr>"

text \<open>A history with no demand value at all.\<close>

definition nan_df :: "row list" where
  "nan_df =
     [\<lparr>WeekCommencing = 7, ClockStarts_52_weeks = NaN, ClockStops_52_weeks = Val 15,
        Over52Weeks = Val 110\<rparr>,
      \<lparr>WeekCommencing = 14, ClockStarts_52_weeks = NaN, ClockStops_52_weeks = Val 15,
        Over52Weeks = Val 100\<rparr>]"

section \<open>Facts about the arithmetic and the quantile\<close>




lemma quantile_empty: "quantile q [] = NaN"
  by (simp add: quantile_def)



lemma apply_initiatives_sum:
  "apply_initiatives c w items =
     c + sum_list (map change (filter (\<lambda>e. start e \<le> w \<and> (case end_date e of None \<Rightarrow> True | Some d \<Rightarrow> w \<le> d)) items))"
  by (induction items arbitrary: c) auto

lemma get_active_initiatives_filter:
  "get_active_initiatives items w =
     filter (\<lambda>e. start e \<le> w \<and> (case end_date e of None \<Rightarrow> True | Some d \<Rightarrow> w \<le> d)) items"
  by (induction items) auto

section \<open>The loop of simulate_future, week by week\<close>

lemma week_step_Inr:
  assumes "week_step g df n inits last_row i wl = Inr v"
  shows "\<exists>d s. clock_start_65 df (next_week_of last_row i) = Inr d
            \<and> clock_stop_65 df (next_week_of last_row i) = Inr s
            \<and> v = (if int i < int n - 1
                   then number_add
                          (max_0_x (number_sub (apply_resets g (next_week_of last_row i) wl)
                             (adjusted_clock_stop last_row inits i (next_week_of last_row i) s)))
                          (Val (of_int d))
                   else max_0_x (number_sub (apply_resets g (next_week_of last_row i) wl)
                          (adjusted_clock_stop last_row inits i (next_week_of last_row i) s)))"
  using assms by (auto simp: week_step_def Let_def split: sum.splits if_splits)

lemma future_loop_Suc:
  assumes "future_loop g df n inits last_row (Suc k) i wl = Inr traj"
  obtains v rest where "week_step g df n inits last_row i wl = Inr v"
    and "future_loop g df n inits last_row k (Suc i) v = Inr rest"
    and "traj = (next_week_of last_row i, v) # rest"
  using assms by (auto split: sum.splits)


lemma future_loop_week:
  "future_loop g df n inits last_row k i wl = Inr traj \<Longrightarrow> j < k
     \<Longrightarrow> fst (traj ! j) = next_week_of last_row (i + j)"
proof (induction k arbitrary: i wl traj j)
  case 0
  then show ?case by simp
next
  case (Suc k)
  from Suc.prems(1) obtain v rest
    where rest: "future_loop g df n inits last_row k (Suc i) v = Inr rest"
      and traj: "traj = (next_week_of last_row i, v) # rest"
    by (rule future_loop_Suc)
  show ?case
  proof (cases j)
    case 0
    then show ?thesis using traj by simp
  next
    case (Suc j')
    then have "j' < k" using Suc.prems(2) by simp
    then have "fst (rest ! j') = next_week_of last_row (Suc i + j')"
      using Suc.IH [OF rest] by blast
    then show ?thesis using traj Suc by simp
  qed
qed

lemma future_loop_step:
  "future_loop g df n inits last_row k i wl = Inr traj \<Longrightarrow> j < k
     \<Longrightarrow> week_step g df n inits last_row (i + j)
           (if j = 0 then wl else snd (traj ! (j - 1))) = Inr (snd (traj ! j))"
proof (induction k arbitrary: i wl traj j)
  case 0
  then show ?case by simp
next
  case (Suc k)
  from Suc.prems(1) obtain v rest
    where step: "week_step g df n inits last_row i wl = Inr v"
      and rest: "future_loop g df n inits last_row k (Suc i) v = Inr rest"
      and traj: "traj = (next_week_of last_row i, v) # rest"
    by (rule future_loop_Suc)
  show ?case
  proof (cases j)
    case 0
    then show ?thesis using traj step by simp
  next
    case (Suc j')
    then have j': "j' < k" using Suc.prems(2) by simp
    have ih: "week_step g df n inits last_row (Suc i + j')
               (if j' = 0 then v else snd (rest ! (j' - 1))) = Inr (snd (rest ! j'))"
      using Suc.IH [OF rest j'] .
    have prev: "snd (traj ! (j - 1)) = (if j' = 0 then v else snd (rest ! (j' - 1)))"
      using traj Suc by (cases j') simp_all
    show ?thesis using ih prev traj Suc by simp
  qed
qed

text \<open>The last actual row of a run that gets past line 120.\<close>

lemma simulate_future_Inr:
  assumes "simulate_future g df n inits = Inr traj"
  shows "before (today g) df \<noteq> []"
    and "future_loop g df n inits (last (before (today g) df)) n 0
           (Over52Weeks (last (before (today g) df))) = Inr traj"
  using assms by (auto simp: simulate_future_def Let_def split: if_splits)

lemma simulate_future_nth:
  assumes run: "simulate_future g df n inits = Inr traj" and i: "i < n"
  defines "last_row \<equiv> last (before (today g) df)"
  defines "w \<equiv> next_week_of (last (before (today g) df)) i"
  shows "\<exists>d s. clock_start_65 df w = Inr d \<and> clock_stop_65 df w = Inr s
           \<and> fst (traj ! i) = w
           \<and> snd (traj ! i) =
               (if int i < int n - 1
                then number_add
                       (max_0_x (number_sub
                          (apply_resets g w (if i = 0 then Over52Weeks last_row else snd (traj ! (i - 1))))
                          (adjusted_clock_stop last_row inits i w s)))
                       (Val (of_int d))
                else max_0_x (number_sub
                       (apply_resets g w (if i = 0 then Over52Weeks last_row else snd (traj ! (i - 1))))
                       (adjusted_clock_stop last_row inits i w s)))"
proof -
  have loop: "future_loop g df n inits last_row n 0 (Over52Weeks last_row) = Inr traj"
    using simulate_future_Inr(2) [OF run] by (simp add: last_row_def)
  have step: "week_step g df n inits last_row i
                (if i = 0 then Over52Weeks last_row else snd (traj ! (i - 1))) = Inr (snd (traj ! i))"
    using future_loop_step [OF loop i] by simp
  have wk: "fst (traj ! i) = w"
    using future_loop_week [OF loop i] by (simp add: w_def last_row_def)
  from week_step_Inr [OF step] wk show ?thesis
    unfolding w_def last_row_def by blast
qed


lemma apply_resets_no_match:
  "w \<notin> set (reset_dates g) \<Longrightarrow> apply_resets g w x = x"
  by (auto simp: apply_resets_def reset_dates_def Let_def split: option.splits)

lemma apply_resets_second:
  "reset_2 g = Some (w, v) \<Longrightarrow> apply_resets g w x = Val (of_int v)"
  by (simp add: apply_resets_def Let_def)


lemma simulate_future_week:
  assumes run: "simulate_future g df n inits = Inr traj" and i: "i < n"
  shows "\<exists>d s. clock_start_65 df (next_week_of (last_actual g df) i) = Inr d
           \<and> clock_stop_65 df (next_week_of (last_actual g df) i) = Inr s
           \<and> fst (traj ! i) = next_week_of (last_actual g df) i
           \<and> snd (traj ! i) =
               (if int i < int n - 1
                then number_add
                       (max_0_x (number_sub
                          (apply_resets g (next_week_of (last_actual g df) i) (wl_before g df traj i))
                          (adjusted_clock_stop (last_actual g df) inits i
                             (next_week_of (last_actual g df) i) s)))
                       (Val (of_int d))
                else max_0_x (number_sub
                       (apply_resets g (next_week_of (last_actual g df) i) (wl_before g df traj i))
                       (adjusted_clock_stop (last_actual g df) inits i
                          (next_week_of (last_actual g df) i) s)))"
  using simulate_future_nth [OF run i] unfolding last_actual_def wl_before_def last_actual_def .












lemma reset_dates_empty: "reset_dates g = [] \<Longrightarrow> apply_resets g w x = x"
  by (simp add: apply_resets_no_match)

lemma simulate_future_unfold:
  "before (today g) df \<noteq> [] \<Longrightarrow>
     simulate_future g df n inits =
       future_loop g df n inits (last_actual g df) n 0 (Over52Weeks (last_actual g df))"
  by (simp add: simulate_future_def last_actual_def Let_def)

lemma apply_initiatives_delta:
  "apply_initiatives s w inits = s + spec_capacity_delta inits w"
  by (simp add: apply_initiatives_sum spec_capacity_delta_def)

lemma dropna_empty_iff: "dropna xs = [] \<longleftrightarrow> (\<forall>x. Val x \<notin> set xs)"
  by (induction xs rule: dropna.induct) auto

lemma dropna_before_mono:
  assumes "dropna (map col (before w df)) = []" and "w0 \<le> w"
  shows "dropna (map col (before w0 df)) = []"
proof -
  have "set (before w0 df) \<subseteq> set (before w df)"
    using assms(2) by (auto simp: before_def)
  then show ?thesis using assms(1) unfolding dropna_empty_iff by auto
qed

lemma clock_65_cases:
  "clock_start_65 df w = Inl ValueError \<or> (\<exists>d. clock_start_65 df w = Inr d)"
  "clock_stop_65 df w = Inl ValueError \<or> (\<exists>d. clock_stop_65 df w = Inr d)"
  unfolding clock_start_65_def clock_stop_65_def
  by (cases "quantile (65 / 100) (dropna (map ClockStarts_52_weeks (before w df)))"; simp)
     (cases "quantile (65 / 100) (dropna (map ClockStops_52_weeks (before w df)))"; simp)

lemma week_step_error: "week_step g df n inits r i wl = Inl e \<Longrightarrow> e = ValueError"
  using clock_65_cases [of df "next_week_of r i"]
  by (auto simp: week_step_def Let_def split: sum.splits)

lemma future_loop_error: "future_loop g df n inits r k i wl = Inl e \<Longrightarrow> e = ValueError"
proof (induction k arbitrary: i wl)
  case 0
  then show ?case by simp
next
  case (Suc k)
  then show ?case by (auto split: sum.splits dest: week_step_error)
qed

lemma week_step_empty_window:
  assumes "dropna (map ClockStarts_52_weeks (before (next_week_of r i) df)) = []
           \<or> dropna (map ClockStops_52_weeks (before (next_week_of r i) df)) = []"
  shows "week_step g df n inits r i wl = Inl ValueError"
  using assms clock_65_cases(1) [of df "next_week_of r i"]
  by (auto simp: week_step_def Let_def clock_start_65_def clock_stop_65_def quantile_empty)


section \<open>The claims\<close>


text \<open>
  C9.  In a run of \<open>simulate_future\<close> over at least one week, the value emitted for the
  final week is \<open>max(0, wl - adjusted_clock_stop)\<close> with no demand added, and every earlier
  week adds its \<open>clock_start_65\<close> after that subtraction.  Here \<open>wl\<close> is the running value
  on entry to the week after lines 140-144, which leave it unchanged on a week that is no
  reset date.
\<close>

theorem final_week_adds_no_demand:
  assumes run: "simulate_future g df n inits = Inr traj" and n: "0 < n"
  shows "(\<exists>s. clock_stop_65 df (next_week_of (last_actual g df) (n - 1)) = Inr s
            \<and> snd (traj ! (n - 1)) =
                max_0_x (number_sub
                  (apply_resets g (next_week_of (last_actual g df) (n - 1)) (wl_before g df traj (n - 1)))
                  (adjusted_clock_stop (last_actual g df) inits (n - 1)
                     (next_week_of (last_actual g df) (n - 1)) s)))
       \<and> (\<forall>i<n - 1. \<exists>d s.
              clock_start_65 df (next_week_of (last_actual g df) i) = Inr d
            \<and> clock_stop_65 df (next_week_of (last_actual g df) i) = Inr s
            \<and> snd (traj ! i) =
                number_add
                  (max_0_x (number_sub
                     (apply_resets g (next_week_of (last_actual g df) i) (wl_before g df traj i))
                     (adjusted_clock_stop (last_actual g df) inits i
                        (next_week_of (last_actual g df) i) s)))
                  (Val (of_int d)))
       \<and> (\<forall>w x. w \<notin> set (reset_dates g) \<longrightarrow> apply_resets g w x = x)"
proof (intro conjI allI impI)
  have last: "n - 1 < n" and notless: "\<not> int (n - 1) < int n - 1" using n by auto
  from simulate_future_week [OF run last] notless
  show "\<exists>s. clock_stop_65 df (next_week_of (last_actual g df) (n - 1)) = Inr s
            \<and> snd (traj ! (n - 1)) =
                max_0_x (number_sub
                  (apply_resets g (next_week_of (last_actual g df) (n - 1)) (wl_before g df traj (n - 1)))
                  (adjusted_clock_stop (last_actual g df) inits (n - 1)
                     (next_week_of (last_actual g df) (n - 1)) s))"
    by auto
next
  fix i assume i: "i < n - 1"
  then have "i < n" and "int i < int n - 1" by auto
  from simulate_future_week [OF run this(1)] this(2)
  show "\<exists>d s.
              clock_start_65 df (next_week_of (last_actual g df) i) = Inr d
            \<and> clock_stop_65 df (next_week_of (last_actual g df) i) = Inr s
            \<and> snd (traj ! i) =
                number_add
                  (max_0_x (number_sub
                     (apply_resets g (next_week_of (last_actual g df) i) (wl_before g df traj i))
                     (adjusted_clock_stop (last_actual g df) inits i
                        (next_week_of (last_actual g df) i) s)))
                  (Val (of_int d))"
    by auto
next
  fix w x assume "w \<notin> set (reset_dates g)"
  then show "apply_resets g w x = x" by (rule apply_resets_no_match)
qed

theorem final_week_adds_no_demand_witness:
  "simulate_future no_resets (flat_df 10 15) 3 [] = Inr [(21, Val 95), (28, Val 90), (35, Val 75)]
   \<and> (0::nat) < 3
   \<and> clock_start_65 (flat_df 10 15) 35 = Inr 10
   \<and> (\<exists>s. clock_stop_65 (flat_df 10 15) 35 = Inr s
          \<and> Val 75 = max_0_x (number_sub (Val 90) (Val (of_int s))))"
proof -
  have run: "simulate_future no_resets (flat_df 10 15) 3 [] = Inr [(21, Val 95), (28, Val 90), (35, Val 75)]"
    by code_simp
  have n: "(0::nat) < 3" by simp
  have w: "next_week_of (last_actual no_resets (flat_df 10 15)) (3 - 1) = 35" by code_simp
  have p: "wl_before no_resets (flat_df 10 15) [(21, Val 95), (28, Val 90), (35, Val 75)] (3 - 1) = Val 90"
    by code_simp
  have d: "clock_start_65 (flat_df 10 15) 35 = Inr 10" by code_simp
  have r: "apply_resets no_resets 35 (Val 90) = Val 90" by code_simp
  have l: "snd ([(21, Val 95), (28, Val 90), (35::int, Val 75)] ! (3 - 1)) = Val 75" by code_simp
  from final_week_adds_no_demand [OF run n, THEN conjunct1]
  have "\<exists>s. clock_stop_65 (flat_df 10 15) 35 = Inr s
          \<and> Val 75 = max_0_x (number_sub (Val 90) (Val (of_int s)))"
    unfolding w p l r by (simp add: adjusted_clock_stop_def)
  then show ?thesis using run d by simp
qed



text \<open>
  C1.  Initial value 100, three weeks with demand 10 and capacity 15, no initiatives and no
  resets.  As stated, for \<open>simulate_future\<close>: the trajectory is 95, 90, 85.  It is not:
  the last week adds no demand, and the run ends at 75.
\<close>

theorem three_weeks_counterexample:
  "simulate_future no_resets (flat_df 10 15) 3 [] = Inr [(21, Val 95), (28, Val 90), (35, Val 75)]
   \<and> simulate_future no_resets (flat_df 10 15) 3 [] \<noteq> Inr [(21, Val 95), (28, Val 90), (35, Val 85)]"
  by code_simp

text \<open>
  C1, amended.  In that scenario the plain recurrence of the three other variants emits
  95, 90, 85, and \<open>simulate_future\<close> emits 95, 90, 75, on every frame whose last actual
  row holds the waiting list 100 and the capacity 15 and whose estimates are 10 and 15 in
  the three weeks.
\<close>

theorem three_weeks_trajectories:
  assumes hist: "before (today g) df \<noteq> []"
    and wl: "Over52Weeks (last_actual g df) = Val 100"
    and cap: "ClockStops_52_weeks (last_actual g df) = Val 15"
    and est: "\<forall>i<3. clock_start_65 df (next_week_of (last_actual g df) i) = Inr 10
                  \<and> clock_stop_65 df (next_week_of (last_actual g df) i) = Inr 15"
    and resets: "reset_dates g = []"
  shows "simulate_future g df 3 [] =
           Inr [(WeekCommencing (last_actual g df) + 7, Val 95),
                (WeekCommencing (last_actual g df) + 14, Val 90),
                (WeekCommencing (last_actual g df) + 21, Val 75)]
       \<and> waiting_list_loop (Val 100) [(Val 10, Val 15), (Val 10, Val 15), (Val 10, Val 15)] =
           [Val 95, Val 90, Val 85]
       \<and> simulate_branch6 100 [] flat_weeks = [Val 95, Val 90, Val 85]
       \<and> simulate_branch_branch 100 0 0 [] flat_weeks = [Val 95, Val 90, Val 85]
       \<and> simulate_final 100 0 0
            [\<lparr>Demand = Val 10, Capacity = Val 15\<rparr>, \<lparr>Demand = Val 10, Capacity = Val 15\<rparr>,
             \<lparr>Demand = Val 10, Capacity = Val 15\<rparr>] = [Val 95, Val 90, Val 85]"
proof (intro conjI)
  let ?r = "last_actual g df"
  have e0: "clock_start_65 df (next_week_of ?r 0) = Inr 10" "clock_stop_65 df (next_week_of ?r 0) = Inr 15"
    and e1: "clock_start_65 df (next_week_of ?r (Suc 0)) = Inr 10"
            "clock_stop_65 df (next_week_of ?r (Suc 0)) = Inr 15"
    and e2: "clock_start_65 df (next_week_of ?r (Suc (Suc 0))) = Inr 10"
            "clock_stop_65 df (next_week_of ?r (Suc (Suc 0))) = Inr 15"
    using est by (simp_all add: numeral_3_eq_3)
  define n :: nat where "n = 3"
  have fuel: "n = Suc (Suc (Suc 0))" by (simp add: n_def)
  have s0: "week_step g df n [] ?r 0 (Val 100) = Inr (Val 95)"
    by (simp add: week_step_def e0 adjusted_clock_stop_def cap reset_dates_empty [OF resets] n_def)
  have s1: "week_step g df n [] ?r (Suc 0) (Val 95) = Inr (Val 90)"
    by (simp add: week_step_def e1 adjusted_clock_stop_def reset_dates_empty [OF resets] n_def)
  have s2: "week_step g df n [] ?r (Suc (Suc 0)) (Val 90) = Inr (Val 75)"
    by (simp add: week_step_def e2 adjusted_clock_stop_def reset_dates_empty [OF resets] n_def)
  have "future_loop g df n [] ?r (Suc (Suc (Suc 0))) 0 (Val 100) =
          Inr [(next_week_of ?r 0, Val 95), (next_week_of ?r (Suc 0), Val 90),
               (next_week_of ?r (Suc (Suc 0)), Val 75)]"
    by (simp add: s0 s1 s2)
  then have "future_loop g df n [] ?r n 0 (Over52Weeks ?r) =
          Inr [(WeekCommencing ?r + 7, Val 95), (WeekCommencing ?r + 14, Val 90),
               (WeekCommencing ?r + 21, Val 75)]"
    unfolding wl fuel [symmetric] by (simp add: next_week_of_def)
  then have "simulate_future g df n [] =
           Inr [(WeekCommencing ?r + 7, Val 95), (WeekCommencing ?r + 14, Val 90),
                (WeekCommencing ?r + 21, Val 75)]"
    using hist by (simp add: simulate_future_unfold)
  then show "simulate_future g df 3 [] =
           Inr [(WeekCommencing ?r + 7, Val 95), (WeekCommencing ?r + 14, Val 90),
                (WeekCommencing ?r + 21, Val 75)]"
    unfolding n_def .
next
  show "waiting_list_loop (Val 100) [(Val 10, Val 15), (Val 10, Val 15), (Val 10, Val 15)] =
           [Val 95, Val 90, Val 85]"
    by simp
next
  show "simulate_branch6 100 [] flat_weeks = [Val 95, Val 90, Val 85]"
    by (simp add: simulate_branch6_def flat_weeks_def)
next
  show "simulate_branch_branch 100 0 0 [] flat_weeks = [Val 95, Val 90, Val 85]"
    by (simp add: simulate_branch_branch_def flat_weeks_def)
next
  show "simulate_final 100 0 0
            [\<lparr>Demand = Val 10, Capacity = Val 15\<rparr>, \<lparr>Demand = Val 10, Capacity = Val 15\<rparr>,
             \<lparr>Demand = Val 10, Capacity = Val 15\<rparr>] = [Val 95, Val 90, Val 85]"
    by (simp add: simulate_final_def)
qed

theorem three_weeks_trajectories_witness:
  "before (today no_resets) (flat_df 10 15) \<noteq> []
   \<and> Over52Weeks (last_actual no_resets (flat_df 10 15)) = Val 100
   \<and> ClockStops_52_weeks (last_actual no_resets (flat_df 10 15)) = Val 15
   \<and> list_all (\<lambda>i. clock_start_65 (flat_df 10 15) (next_week_of (last_actual no_resets (flat_df 10 15)) i) = Inr 10
                  \<and> clock_stop_65 (flat_df 10 15) (next_week_of (last_actual no_resets (flat_df 10 15)) i) = Inr 15)
        [0, 1, 2]
   \<and> reset_dates no_resets = []
   \<and> WeekCommencing (last_actual no_resets (flat_df 10 15)) = 14
   \<and> simulate_future no_resets (flat_df 10 15) 3 [] = Inr [(14 + 7, Val 95), (14 + 14, Val 90), (14 + 21, Val 75)]"
proof -
  have hist: "before (today no_resets) (flat_df 10 15) \<noteq> []" by code_simp
  have wl: "Over52Weeks (last_actual no_resets (flat_df 10 15)) = Val 100" by code_simp
  have cap: "ClockStops_52_weeks (last_actual no_resets (flat_df 10 15)) = Val 15" by code_simp
  have l: "list_all (\<lambda>i. clock_start_65 (flat_df 10 15) (next_week_of (last_actual no_resets (flat_df 10 15)) i) = Inr 10
                  \<and> clock_stop_65 (flat_df 10 15) (next_week_of (last_actual no_resets (flat_df 10 15)) i) = Inr 15)
        [0, 1, 2]" by code_simp
  have "\<And>i::nat. i < 3 \<Longrightarrow> i \<in> set [0, 1, 2]" by auto
  then have est: "\<forall>i<3. clock_start_65 (flat_df 10 15) (next_week_of (last_actual no_resets (flat_df 10 15)) i) = Inr 10
                  \<and> clock_stop_65 (flat_df 10 15) (next_week_of (last_actual no_resets (flat_df 10 15)) i) = Inr 15"
    using l unfolding list_all_iff by blast
  have resets: "reset_dates no_resets = []" by code_simp
  have w: "WeekCommencing (last_actual no_resets (flat_df 10 15)) = 14" by code_simp
  from three_weeks_trajectories [OF hist wl cap est resets, THEN conjunct1]
  have "simulate_future no_resets (flat_df 10 15) 3 [] = Inr [(14 + 7, Val 95), (14 + 14, Val 90), (14 + 21, Val 75)]"
    unfolding w .
  then show ?thesis using hist wl cap l resets w by blast
qed




text \<open>
  C4.  As stated: at every period the capacity delta applied is the sum of the changes of
  the events active at it, so an event with \<open>start = end = P\<close> counts at \<open>P\<close>.  At the
  first forecast week it does not: line 138 replaces the adjusted capacity by the last
  actual capacity, and the run with the event on day 21 is the run without it, while the
  export names the event for that week.
\<close>

theorem single_week_initiative_counterexample:
  "start (extra_clinic 21) = 21 \<and> end_date (extra_clinic 21) = Some 21 \<and> change (extra_clinic 21) = 5
   \<and> next_week_of (last_actual no_resets (flat_df 10 15)) 0 = 21
   \<and> clock_stop_65 (flat_df 10 15) 21 = Inr 15
   \<and> adjusted_clock_stop (last_actual no_resets (flat_df 10 15)) [extra_clinic 21] 0 21 15 = Val 15
   \<and> simulate_future no_resets (flat_df 10 15) 3 [extra_clinic 21] =
       Inr [(21, Val 95), (28, Val 90), (35, Val 75)]
   \<and> simulate_future no_resets (flat_df 10 15) 3 [extra_clinic 21] =
       simulate_future no_resets (flat_df 10 15) 3 []
   \<and> get_active_initiatives [extra_clinic 21] 21 = [extra_clinic 21]"
  by code_simp

text \<open>
  C4, amended.  At every forecast week after the first, the capacity subtracted is the
  estimate plus the sum of the changes of the events with \<open>start \<le> week\<close> and \<open>end\<close>
  absent or \<open>week \<le> end\<close>.  The loop of lines 132-135 computes that sum at every week;
  an event with \<open>start = end = P\<close> adds its change at \<open>P\<close> and at no other week; and the
  export lists the same events.
\<close>

theorem initiative_delta_after_first_week:
  assumes run: "simulate_future g df n inits = Inr traj" and pos: "0 < i" and i: "i < n"
  shows "(\<exists>d s. clock_start_65 df (next_week_of (last_actual g df) i) = Inr d
            \<and> clock_stop_65 df (next_week_of (last_actual g df) i) = Inr s
            \<and> snd (traj ! i) =
                (if int i < int n - 1
                 then number_add
                        (max_0_x (number_sub
                           (apply_resets g (next_week_of (last_actual g df) i) (wl_before g df traj i))
                           (Val (of_int (s + spec_capacity_delta inits (next_week_of (last_actual g df) i))))))
                        (Val (of_int d))
                 else max_0_x (number_sub
                        (apply_resets g (next_week_of (last_actual g df) i) (wl_before g df traj i))
                        (Val (of_int (s + spec_capacity_delta inits (next_week_of (last_actual g df) i)))))))
       \<and> (\<forall>s p nm P c.
            apply_initiatives s p [\<lparr>name = nm, start = P, change = c, end_date = Some P\<rparr>] =
              (if p = P then s + c else s))
       \<and> (\<forall>s p. apply_initiatives s p inits = s + spec_capacity_delta inits p)
       \<and> (\<forall>p. spec_capacity_delta inits p = sum_list (map change (get_active_initiatives inits p)))"
proof (intro conjI allI)
  have a: "\<And>s. adjusted_clock_stop (last_actual g df) inits i (next_week_of (last_actual g df) i) s =
          Val (of_int (s + spec_capacity_delta inits (next_week_of (last_actual g df) i)))"
    using pos by (simp add: adjusted_clock_stop_def apply_initiatives_delta)
  from simulate_future_week [OF run i]
  show "\<exists>d s. clock_start_65 df (next_week_of (last_actual g df) i) = Inr d
            \<and> clock_stop_65 df (next_week_of (last_actual g df) i) = Inr s
            \<and> snd (traj ! i) =
                (if int i < int n - 1
                 then number_add
                        (max_0_x (number_sub
                           (apply_resets g (next_week_of (last_actual g df) i) (wl_before g df traj i))
                           (Val (of_int (s + spec_capacity_delta inits (next_week_of (last_actual g df) i))))))
                        (Val (of_int d))
                 else max_0_x (number_sub
                        (apply_resets g (next_week_of (last_actual g df) i) (wl_before g df traj i))
                        (Val (of_int (s + spec_capacity_delta inits (next_week_of (last_actual g df) i))))))"
    unfolding a by blast
next
  fix s p nm P c
  show "apply_initiatives s p [\<lparr>name = nm, start = P, change = c, end_date = Some P\<rparr>] =
              (if p = P then s + c else s)"
    by simp
next
  fix s p
  show "apply_initiatives s p inits = s + spec_capacity_delta inits p"
    by (rule apply_initiatives_delta)
next
  fix p
  show "spec_capacity_delta inits p = sum_list (map change (get_active_initiatives inits p))"
    by (simp add: spec_capacity_delta_def get_active_initiatives_filter)
qed

theorem initiative_delta_after_first_week_witness:
  "simulate_future no_resets (flat_df 10 15) 3 [extra_clinic 28] =
     Inr [(21, Val 95), (28, Val 85), (35, Val 70)]
   \<and> (0::nat) < 1 \<and> (1::nat) < 3
   \<and> spec_capacity_delta [extra_clinic 28] 21 = 0
   \<and> spec_capacity_delta [extra_clinic 28] 28 = 5
   \<and> spec_capacity_delta [extra_clinic 28] 35 = 0
   \<and> (\<exists>d s. clock_start_65 (flat_df 10 15) 28 = Inr d \<and> clock_stop_65 (flat_df 10 15) 28 = Inr s
          \<and> Val 85 = number_add (max_0_x (number_sub (Val 95) (Val (of_int (s + 5))))) (Val (of_int d)))"
proof -
  have run: "simulate_future no_resets (flat_df 10 15) 3 [extra_clinic 28] =
     Inr [(21, Val 95), (28, Val 85), (35, Val 70)]"
    by code_simp
  have pos: "(0::nat) < 1" and i: "(1::nat) < 3" by simp_all
  have d0: "spec_capacity_delta [extra_clinic 28] 21 = 0"
    and d1: "spec_capacity_delta [extra_clinic 28] 28 = 5"
    and d2: "spec_capacity_delta [extra_clinic 28] 35 = 0"
    by code_simp+
  have w: "next_week_of (last_actual no_resets (flat_df 10 15)) 1 = 28" by code_simp
  have p: "wl_before no_resets (flat_df 10 15) [(21, Val 95), (28, Val 85), (35, Val 70)] 1 = Val 95"
    by code_simp
  have r: "apply_resets no_resets 28 (Val 95) = Val 95" by code_simp
  from initiative_delta_after_first_week [OF run pos i, THEN conjunct1]
  have "\<exists>d s. clock_start_65 (flat_df 10 15) 28 = Inr d \<and> clock_stop_65 (flat_df 10 15) 28 = Inr s
          \<and> Val 85 = number_add (max_0_x (number_sub (Val 95) (Val (of_int (s + 5))))) (Val (of_int d))"
    unfolding w p r d1 by simp
  then show ?thesis using run d0 d1 d2 by simp
qed

text \<open>
  C6.  In every run that returns, the first forecast week subtracts the last actual
  capacity, whatever the estimate and the initiatives are, and only that week does: every
  later week subtracts its estimate \<open>clock_stop_65\<close> with the changes of the active
  initiatives added, which is the estimate itself when there is no initiative.
\<close>

theorem first_week_uses_last_actual_capacity:
  assumes run: "simulate_future g df n inits = Inr traj" and n: "0 < n"
  shows "(\<exists>d s. clock_start_65 df (next_week_of (last_actual g df) 0) = Inr d
            \<and> clock_stop_65 df (next_week_of (last_actual g df) 0) = Inr s
            \<and> snd (traj ! 0) =
                (if 1 < n
                 then number_add
                        (max_0_x (number_sub
                           (apply_resets g (next_week_of (last_actual g df) 0)
                              (Over52Weeks (last_actual g df)))
                           (ClockStops_52_weeks (last_actual g df))))
                        (Val (of_int d))
                 else max_0_x (number_sub
                        (apply_resets g (next_week_of (last_actual g df) 0)
                           (Over52Weeks (last_actual g df)))
                        (ClockStops_52_weeks (last_actual g df)))))
       \<and> (\<forall>i. 0 < i \<and> i < n \<longrightarrow>
            (\<exists>d s. clock_start_65 df (next_week_of (last_actual g df) i) = Inr d
               \<and> clock_stop_65 df (next_week_of (last_actual g df) i) = Inr s
               \<and> snd (traj ! i) =
                   (if int i < int n - 1
                    then number_add
                           (max_0_x (number_sub
                              (apply_resets g (next_week_of (last_actual g df) i) (snd (traj ! (i - 1))))
                              (Val (of_int (apply_initiatives s (next_week_of (last_actual g df) i) inits)))))
                           (Val (of_int d))
                    else max_0_x (number_sub
                           (apply_resets g (next_week_of (last_actual g df) i) (snd (traj ! (i - 1))))
                           (Val (of_int (apply_initiatives s (next_week_of (last_actual g df) i) inits)))))))
       \<and> (\<forall>s w. apply_initiatives s w [] = s)"
proof (intro conjI allI impI)
  have c: "int 0 < int n - 1 \<longleftrightarrow> 1 < n" by auto
  have a: "\<And>s. adjusted_clock_stop (last_actual g df) inits 0 (next_week_of (last_actual g df) 0) s =
             ClockStops_52_weeks (last_actual g df)"
    by (simp add: adjusted_clock_stop_def)
  have p: "wl_before g df traj 0 = Over52Weeks (last_actual g df)"
    by (simp add: wl_before_def)
  from simulate_future_week [OF run n]
  show "\<exists>d s. clock_start_65 df (next_week_of (last_actual g df) 0) = Inr d
            \<and> clock_stop_65 df (next_week_of (last_actual g df) 0) = Inr s
            \<and> snd (traj ! 0) =
                (if 1 < n
                 then number_add
                        (max_0_x (number_sub
                           (apply_resets g (next_week_of (last_actual g df) 0)
                              (Over52Weeks (last_actual g df)))
                           (ClockStops_52_weeks (last_actual g df))))
                        (Val (of_int d))
                 else max_0_x (number_sub
                        (apply_resets g (next_week_of (last_actual g df) 0)
                           (Over52Weeks (last_actual g df)))
                        (ClockStops_52_weeks (last_actual g df))))"
    unfolding c a p by blast
next
  fix i assume "0 < i \<and> i < n"
  then have pos: "0 < i" and i: "i < n" by simp_all
  have a: "\<And>s. adjusted_clock_stop (last_actual g df) inits i (next_week_of (last_actual g df) i) s =
             Val (of_int (apply_initiatives s (next_week_of (last_actual g df) i) inits))"
    using pos by (simp add: adjusted_clock_stop_def)
  have p: "wl_before g df traj i = snd (traj ! (i - 1))"
    using pos by (simp add: wl_before_def)
  from simulate_future_week [OF run i]
  show "\<exists>d s. clock_start_65 df (next_week_of (last_actual g df) i) = Inr d
               \<and> clock_stop_65 df (next_week_of (last_actual g df) i) = Inr s
               \<and> snd (traj ! i) =
                   (if int i < int n - 1
                    then number_add
                           (max_0_x (number_sub
                              (apply_resets g (next_week_of (last_actual g df) i) (snd (traj ! (i - 1))))
                              (Val (of_int (apply_initiatives s (next_week_of (last_actual g df) i) inits)))))
                           (Val (of_int d))
                    else max_0_x (number_sub
                           (apply_resets g (next_week_of (last_actual g df) i) (snd (traj ! (i - 1))))
                           (Val (of_int (apply_initiatives s (next_week_of (last_actual g df) i) inits)))))"
    unfolding a p by blast
next
  fix s w show "apply_initiatives s w [] = s" by simp
qed

theorem first_week_uses_last_actual_capacity_witness:
  "simulate_future no_resets seam_df 3 [] = Inr [(21, Val 70), (28, Val 58), (35, Val 36)]
   \<and> (0::nat) < 3
   \<and> ClockStops_52_weeks (last_actual no_resets seam_df) = Val 40
   \<and> clock_stop_65 seam_df 21 = Inr 22
   \<and> (\<exists>d. clock_start_65 seam_df 21 = Inr d
         \<and> Val 70 = number_add (max_0_x (number_sub (Val 100) (Val 40))) (Val (of_int d)))"
proof -
  have run: "simulate_future no_resets seam_df 3 [] = Inr [(21, Val 70), (28, Val 58), (35, Val 36)]"
    by code_simp
  have n: "(0::nat) < 3" by simp
  have c: "ClockStops_52_weeks (last_actual no_resets seam_df) = Val 40" by code_simp
  have s: "clock_stop_65 seam_df 21 = Inr 22" by code_simp
  have w: "next_week_of (last_actual no_resets seam_df) 0 = 21" by code_simp
  have p: "Over52Weeks (last_actual no_resets seam_df) = Val 100" by code_simp
  have r: "apply_resets no_resets 21 (Val 100) = Val 100" by code_simp
  from first_week_uses_last_actual_capacity [OF run n, THEN conjunct1]
  have "\<exists>d. clock_start_65 seam_df 21 = Inr d
         \<and> Val 70 = number_add (max_0_x (number_sub (Val 100) (Val 40))) (Val (of_int d))"
    unfolding w p r c by simp
  then show ?thesis using run c s by simp
qed

text \<open>
  C7.  As stated: two resets with the same date are rejected before the simulation starts.
  They are not: the sidebar hands both to the simulation, which runs and returns a
  trajectory, computed from the value of the second reset.
\<close>

theorem same_date_resets_counterexample:
  "waiting_list_resets 15 (flat_df 10 5) (True, 21, 50) (True, 21, 70) = Inr same_date_resets
   \<and> reset_1 same_date_resets = Some (21, 50)
   \<and> reset_2 same_date_resets = Some (21, 70)
   \<and> simulate_future same_date_resets (flat_df 10 5) 2 [] = Inr [(21, Val 75), (28, Val 70)]"
  by code_simp

text \<open>
  C7, amended.  Two resets switched on with the same date are accepted whenever the frame
  has a last actual row with a waiting-list value from 1 to 3000; on that date the running value becomes
  the value of the second reset, and the emitted value is computed from it.
\<close>

theorem same_date_resets_second_wins:
  assumes hist: "before td df \<noteq> []"
    and wl: "py_int (Over52Weeks (last (before td df))) = Inr v0" "1 \<le> v0" "v0 \<le> 3000"
    and g: "g = \<lparr>today = td, reset_1 = Some (d, v1), reset_2 = Some (d, v2)\<rparr>"
  shows "waiting_list_resets td df (True, d, v1) (True, d, v2) = Inr g
       \<and> (\<forall>x. apply_resets g d x = Val (of_int v2))
       \<and> (\<forall>n inits traj i.
            simulate_future g df n inits = Inr traj \<and> i < n \<and> next_week_of (last_actual g df) i = d
            \<longrightarrow> (\<exists>dm s. clock_start_65 df d = Inr dm \<and> clock_stop_65 df d = Inr s
                   \<and> snd (traj ! i) =
                       (if int i < int n - 1
                        then number_add
                               (max_0_x (number_sub (Val (of_int v2))
                                  (adjusted_clock_stop (last_actual g df) inits i d s)))
                               (Val (of_int dm))
                        else max_0_x (number_sub (Val (of_int v2))
                               (adjusted_clock_stop (last_actual g df) inits i d s)))))"
proof (intro conjI allI impI)
  show "waiting_list_resets td df (True, d, v1) (True, d, v2) = Inr g"
    using hist wl by (simp add: waiting_list_resets_def Let_def g)
next
  fix x
  show "apply_resets g d x = Val (of_int v2)"
    by (simp add: apply_resets_second g)
next
  fix n inits traj i
  assume "simulate_future g df n inits = Inr traj \<and> i < n \<and> next_week_of (last_actual g df) i = d"
  then have run: "simulate_future g df n inits = Inr traj" and i: "i < n"
    and w: "next_week_of (last_actual g df) i = d" by simp_all
  have r: "apply_resets g d (wl_before g df traj i) = Val (of_int v2)"
    by (simp add: apply_resets_second g)
  from simulate_future_week [OF run i]
  show "\<exists>dm s. clock_start_65 df d = Inr dm \<and> clock_stop_65 df d = Inr s
                   \<and> snd (traj ! i) =
                       (if int i < int n - 1
                        then number_add
                               (max_0_x (number_sub (Val (of_int v2))
                                  (adjusted_clock_stop (last_actual g df) inits i d s)))
                               (Val (of_int dm))
                        else max_0_x (number_sub (Val (of_int v2))
                               (adjusted_clock_stop (last_actual g df) inits i d s)))"
    unfolding w r by blast
qed

theorem same_date_resets_second_wins_witness:
  "before 15 (flat_df 10 5) \<noteq> []
   \<and> py_int (Over52Weeks (last (before 15 (flat_df 10 5)))) = Inr 100
   \<and> (1::int) \<le> 100 \<and> (100::int) \<le> 3000
   \<and> same_date_resets = \<lparr>today = 15, reset_1 = Some (21, 50), reset_2 = Some (21, 70)\<rparr>
   \<and> waiting_list_resets 15 (flat_df 10 5) (True, 21, 50) (True, 21, 70) = Inr same_date_resets
   \<and> apply_resets same_date_resets 21 (Val 100) = Val 70"
proof -
  have hist: "before 15 (flat_df 10 5) \<noteq> []" by code_simp
  have wl: "py_int (Over52Weeks (last (before 15 (flat_df 10 5)))) = Inr 100" by code_simp
  have b: "(1::int) \<le> 100" "(100::int) \<le> 3000" by simp_all
  have g: "same_date_resets = \<lparr>today = 15, reset_1 = Some (21, 50), reset_2 = Some (21, 70)\<rparr>"
    by (simp add: same_date_resets_def)
  from same_date_resets_second_wins [OF hist wl b g]
  have "waiting_list_resets 15 (flat_df 10 5) (True, 21, 50) (True, 21, 70) = Inr same_date_resets"
    and "apply_resets same_date_resets 21 (Val 100) = Val (of_int 70)"
    by blast+
  then show ?thesis using hist wl b g by simp
qed

text \<open>
  C8.  As stated: a run with an empty historical window fails with an error named
  InsufficientHistory.  The run fails, but with IndexError when no row precedes today, and
  with ValueError when the quantile window holds no value.
\<close>

theorem empty_history_counterexample:
  "simulate_future no_resets [] 1 [] = Inl IndexError
   \<and> error_name IndexError \<noteq> ''InsufficientHistory''
   \<and> dropna (map ClockStarts_52_weeks (before 21 nan_df)) = []
   \<and> simulate_future no_resets nan_df 1 [] = Inl ValueError
   \<and> error_name ValueError \<noteq> ''InsufficientHistory''"
  by code_simp

text \<open>
  C8, amended.  With no row before today the run raises IndexError.  With such a row, a run
  of at least one week in which the window of some week holds no demand value or no
  capacity value raises ValueError.  In both cases no trajectory is returned and no value
  is substituted, and a run raises no other exception.
\<close>

theorem empty_history_fails:
  "(before (today g) df = [] \<longrightarrow> simulate_future g df n inits = Inl IndexError)
   \<and> (before (today g) df \<noteq> [] \<and> i < n
        \<and> (dropna (map ClockStarts_52_weeks (before (next_week_of (last_actual g df) i) df)) = []
           \<or> dropna (map ClockStops_52_weeks (before (next_week_of (last_actual g df) i) df)) = [])
      \<longrightarrow> simulate_future g df n inits = Inl ValueError)
   \<and> (\<forall>e. simulate_future g df n inits = Inl e \<longrightarrow> e = IndexError \<or> e = ValueError)"
proof (intro conjI allI impI)
  assume "before (today g) df = []"
  then show "simulate_future g df n inits = Inl IndexError"
    by (simp add: simulate_future_def)
next
  assume a: "before (today g) df \<noteq> [] \<and> i < n
        \<and> (dropna (map ClockStarts_52_weeks (before (next_week_of (last_actual g df) i) df)) = []
           \<or> dropna (map ClockStops_52_weeks (before (next_week_of (last_actual g df) i) df)) = [])"
  let ?r = "last_actual g df"
  have le: "next_week_of ?r 0 \<le> next_week_of ?r i" by (simp add: next_week_of_def)
  have "dropna (map ClockStarts_52_weeks (before (next_week_of ?r 0) df)) = []
        \<or> dropna (map ClockStops_52_weeks (before (next_week_of ?r 0) df)) = []"
    using a dropna_before_mono [OF _ le] by blast
  then have step: "week_step g df n inits ?r 0 (Over52Weeks ?r) = Inl ValueError"
    by (rule week_step_empty_window)
  obtain k where k: "n = Suc k" using a by (cases n) auto
  have "future_loop g df n inits ?r (Suc k) 0 (Over52Weeks ?r) = Inl ValueError"
    by (simp add: step)
  then show "simulate_future g df n inits = Inl ValueError"
    using a k by (simp add: simulate_future_unfold)
next
  fix e assume "simulate_future g df n inits = Inl e"
  then show "e = IndexError \<or> e = ValueError"
    using future_loop_error by (fastforce simp: simulate_future_def Let_def split: if_splits)
qed

theorem empty_history_fails_witness:
  "before (today no_resets) [] = []
   \<and> simulate_future no_resets [] 3 [] = Inl IndexError
   \<and> before (today no_resets) nan_df \<noteq> [] \<and> (1::nat) < 3
   \<and> dropna (map ClockStarts_52_weeks (before (next_week_of (last_actual no_resets nan_df) 1) nan_df)) = []
   \<and> simulate_future no_resets nan_df 3 [] = Inl ValueError"
proof -
  have h1: "before (today no_resets) [] = []" by code_simp
  have h2: "before (today no_resets) nan_df \<noteq> []" by code_simp
  have h3: "(1::nat) < 3" by simp
  have h4: "dropna (map ClockStarts_52_weeks (before (next_week_of (last_actual no_resets nan_df) 1) nan_df)) = []"
    by code_simp
  have "simulate_future no_resets [] 3 [] = Inl IndexError"
    using empty_history_fails [where g = no_resets and df = "[]" and n = 3 and inits = "[]" and i = 0] h1 by blast
  moreover have "simulate_future no_resets nan_df 3 [] = Inl ValueError"
    using empty_history_fails [where g = no_resets and df = nan_df and n = 3 and inits = "[]" and i = 1] h2 h3 h4 by blast
  ultimately show ?thesis using h1 h2 h3 h4 by blast
qed



end
